theory Spec2Isabelle
  imports Main "HOL-Library.Word"
begin

section \<open>Data model\<close>

text \<open>
  The operator of \<^verbatim>\<open>src/operator/operator.go\<close> reconciles two kinds of objects of an
  orchestration API: MetricsClusters (the declared clusters) and Deployments. The API
  objects are records; Go's embedded \<^verbatim>\<open>ObjectMeta\<close> is a record that the object
  records extend, so that \<open>Name d\<close> and \<open>Labels d\<close> read as \<^verbatim>\<open>d.Name\<close> and
  \<^verbatim>\<open>d.Labels\<close> do. A \<^verbatim>\<open>map[string]string\<close> is a map \<open>string \<rightharpoonup> string\<close>; Go reads a
  nil map as an empty one and \<^verbatim>\<open>equality.Semantic.DeepEqual\<close> equates the two, so
  both are \<open>Map.empty\<close>.
\<close>

type_synonym NamespacedName = "string \<times> string"
  \<comment> \<open>\<^verbatim>\<open>types.NamespacedName{Namespace, Name}\<close>\<close>

type_synonym StringMap = "string \<rightharpoonup> string"

type_synonym Time = string
  \<comment> \<open>a \<^verbatim>\<open>metav1.Time\<close>, held as what \<^verbatim>\<open>.UTC().Format(time.RFC3339)\<close> prints of it\<close>

record Operator =
  OperatorNamespace :: string
  FetcherImage :: string
  PrometheusImage :: string
  ThanosImage :: string
  GCSStorageBaseURL :: string
  ProwBaseURL :: string
  GCSPrefix :: string
  PrometheusMemory :: string

record ObjectMeta =
  Namespace :: string
  Name :: string
  Labels :: StringMap
  Annotations :: StringMap

record MetricsCluster = ObjectMeta +
  URLs :: "string list"

text \<open>
  The fields of \<^verbatim>\<open>prowapi.ProwJob\<close> that the operator reads: \<^verbatim>\<open>Spec.Job\<close>,
  \<^verbatim>\<open>Status.URL\<close>, \<^verbatim>\<open>Status.StartTime\<close> (a \<^verbatim>\<open>metav1.Time\<close> value) and
  \<^verbatim>\<open>Status.CompletionTime\<close> (a \<^verbatim>\<open>*metav1.Time\<close>: a pointer, nil while the field is
  unpopulated, hence an option).
\<close>

record ProwJob =
  SpecJob :: string
  StatusURL :: string
  StatusStartTime :: Time
  StatusCompletionTime :: "Time option"

record Job =
  ProwJob :: ProwJob
  PrometheusTarURL :: string

record Probe =
  TimeoutSeconds :: nat
  PeriodSeconds :: nat
  SuccessThreshold :: nat
  FailureThreshold :: nat
  HTTPGetPath :: string
  HTTPGetPort :: nat
  HTTPGetScheme :: string

record Container =
  ContainerName :: string
  Image :: string
  Command :: "string list"
  WorkingDir :: string
  EnvVars :: "(string \<times> string) list"
  Ports :: "(string \<times> string \<times> nat) list"
  VolumeMounts :: "(string \<times> string) list"
  Requests :: StringMap
  ReadinessProbe :: "Probe option"

record PodSpec =
  ShareProcessNamespace :: "bool option"
  Volumes :: "string list"
  InitContainers :: "Container list"
  Containers :: "Container list"

record PodTemplateSpec = ObjectMeta +
  PodSpec :: PodSpec

record DeploymentSpec =
  Replicas :: "32 word option"
  SelectorMatchLabels :: StringMap
  Template :: "PodTemplateSpec"

record Deployment = ObjectMeta +
  Spec :: DeploymentSpec

record Service = ObjectMeta +
  ClusterIP :: string
  ServicePorts :: "(string \<times> nat \<times> string) list"
  Selector :: StringMap

record Route = ObjectMeta +
  ToKind :: string
  ToName :: string
  TargetPort :: string
  TLSTermination :: string
  InsecureEdgeTerminationPolicy :: string

text \<open>The zero values that \<^verbatim>\<open>&api.MetricsCluster{}\<close>, \<^verbatim>\<open>&appsv1.Deployment{}\<close>, ... allocate.\<close>

definition zeroObjectMeta :: ObjectMeta where
  "zeroObjectMeta = \<lparr>Namespace = [], Name = [], Labels = Map.empty, Annotations = Map.empty\<rparr>"

definition zeroMetricsCluster :: MetricsCluster where
  "zeroMetricsCluster = ObjectMeta.extend zeroObjectMeta (MetricsCluster.fields [])"

definition zeroPodSpec :: PodSpec where
  "zeroPodSpec = \<lparr>ShareProcessNamespace = None, Volumes = [], InitContainers = [], Containers = []\<rparr>"

definition zeroDeployment :: Deployment where
  "zeroDeployment = ObjectMeta.extend zeroObjectMeta (Deployment.fields
     \<lparr>Replicas = None, SelectorMatchLabels = Map.empty,
      Template = ObjectMeta.extend zeroObjectMeta (PodTemplateSpec.fields zeroPodSpec)\<rparr>)"

definition zeroService :: Service where
  "zeroService = ObjectMeta.extend zeroObjectMeta (Service.fields [] [] Map.empty)"

definition zeroRoute :: Route where
  "zeroRoute = ObjectMeta.extend zeroObjectMeta (Route.fields [] [] [] [] [])"

definition zeroTime :: Time where
  "zeroTime = ''0001-01-01T00:00:00Z''"

definition zeroProwJob :: ProwJob where
  "zeroProwJob = \<lparr>SpecJob = [], StatusURL = [], StatusStartTime = zeroTime,
     StatusCompletionTime = None\<rparr>"

definition objKey :: "'a ObjectMeta_scheme \<Rightarrow> NamespacedName" where
  "objKey obj = (Namespace obj, Name obj)"

section \<open>The API client, the network and the process state\<close>

text \<open>
  \<^verbatim>\<open>o.client\<close> is the orchestration API. Its objects are the lists of a \<open>World\<close>; every
  call is appended to \<open>apiLog\<close> with its outcome, so that a theorem can say which calls
  a reconciliation made. The memoization cache \<^verbatim>\<open>prometheusURLs\<close> (a package variable)
  is part of the world too, and \<open>netLog\<close> holds the network lookups made.

  What the code cannot decide is a parameter, the record \<open>Externals\<close>: which API calls
  fail for a reason other than not-found or already-exists (\<open>failing n c\<close>: call \<open>c\<close>
  fails when it is the \<open>n\<close>-th call of the log), what \<^verbatim>\<open>http.Get\<close> and the JSON
  decoder give for a URL, the function \<^verbatim>\<open>getTarURLFromProw\<close> (of this package, defined
  outside \<^verbatim>\<open>operator.go\<close>), \<^verbatim>\<open>sha256.Sum256\<close> and \<^verbatim>\<open>resource.MustParse\<close>.
\<close>

datatype Kind = KMetricsCluster | KDeployment | KService | KRoute

datatype ApiCall =
    ApiGet Kind NamespacedName
  | ApiList Kind string
  | ApiCreate Kind NamespacedName
  | ApiUpdate Kind NamespacedName
  | ApiDelete Kind NamespacedName

datatype ApiError = NotFound | AlreadyExists | OtherError

datatype HttpResult =
    GetFailed
  | Decoded ProwJob
  | DecodeFailed ProwJob
  \<comment> \<open>\<^verbatim>\<open>http.Get\<close> failed; or the body decoded; or \<^verbatim>\<open>Decode\<close> returned an error and left
      \<^verbatim>\<open>prowJob\<close> with the fields it had populated\<close>

datatype NetCall = HttpGet string | TarLookup string string

record Externals =
  failing :: "nat \<Rightarrow> ApiCall \<Rightarrow> bool"
  httpGet :: "string \<Rightarrow> HttpResult"
  getTarURLFromProw :: "string \<Rightarrow> string \<Rightarrow> string + string"
  sha256Sum :: "string \<Rightarrow> 8 word list"
  parseQuantity :: "string \<Rightarrow> string option"

record World =
  clusters :: "MetricsCluster list"
  deployments :: "Deployment list"
  services :: "Service list"
  routes :: "Route list"
  prometheusURLs :: StringMap
  apiLog :: "(ApiCall \<times> ApiError option) list"
  netLog :: "NetCall list"

datatype Failure = Panic string | Error string ApiError
  \<comment> \<open>a reconciliation ends in a panic, or returns \<^verbatim>\<open>fmt.Errorf("...: %w", err)\<close>\<close>

type_synonym Result = "Failure + unit"
  \<comment> \<open>\<open>Inr ()\<close> is \<^verbatim>\<open>reconcile.Result{}, nil\<close>\<close>

definition logCall :: "ApiCall \<Rightarrow> ApiError option \<Rightarrow> World \<Rightarrow> World" where
  "logCall c r w = w\<lparr>apiLog := apiLog w @ [(c, r)]\<rparr>"

definition fails :: "Externals \<Rightarrow> World \<Rightarrow> ApiCall \<Rightarrow> bool" where
  "fails ext w c = failing ext (length (apiLog w)) c"

definition lookupObj :: "NamespacedName \<Rightarrow> ('a ObjectMeta_scheme) list \<Rightarrow> 'a ObjectMeta_scheme option" where
  "lookupObj key objs = find (\<lambda>obj. objKey obj = key) objs"

definition inNamespace :: "string \<Rightarrow> ('a ObjectMeta_scheme) list \<Rightarrow> ('a ObjectMeta_scheme) list" where
  "inNamespace ns objs = filter (\<lambda>obj. Namespace obj = ns) objs"

text \<open>
  \<^verbatim>\<open>client.Get(ctx, key, out)\<close>: on an error \<^verbatim>\<open>out\<close> is left as the caller allocated it.
\<close>

definition getMetricsCluster ::
  "Externals \<Rightarrow> NamespacedName \<Rightarrow> MetricsCluster \<Rightarrow> World \<Rightarrow> ApiError option \<times> MetricsCluster \<times> World" where
  "getMetricsCluster ext key out w =
     (let c = ApiGet KMetricsCluster key in
      if fails ext w c then (Some OtherError, out, logCall c (Some OtherError) w)
      else case lookupObj key (clusters w) of
             None \<Rightarrow> (Some NotFound, out, logCall c (Some NotFound) w)
           | Some obj \<Rightarrow> (None, obj, logCall c None w))"

definition getDeployment ::
  "Externals \<Rightarrow> NamespacedName \<Rightarrow> Deployment \<Rightarrow> World \<Rightarrow> ApiError option \<times> Deployment \<times> World" where
  "getDeployment ext key out w =
     (let c = ApiGet KDeployment key in
      if fails ext w c then (Some OtherError, out, logCall c (Some OtherError) w)
      else case lookupObj key (deployments w) of
             None \<Rightarrow> (Some NotFound, out, logCall c (Some NotFound) w)
           | Some obj \<Rightarrow> (None, obj, logCall c None w))"

definition getService ::
  "Externals \<Rightarrow> NamespacedName \<Rightarrow> Service \<Rightarrow> World \<Rightarrow> ApiError option \<times> Service \<times> World" where
  "getService ext key out w =
     (let c = ApiGet KService key in
      if fails ext w c then (Some OtherError, out, logCall c (Some OtherError) w)
      else case lookupObj key (services w) of
             None \<Rightarrow> (Some NotFound, out, logCall c (Some NotFound) w)
           | Some obj \<Rightarrow> (None, obj, logCall c None w))"

definition getRoute ::
  "Externals \<Rightarrow> NamespacedName \<Rightarrow> Route \<Rightarrow> World \<Rightarrow> ApiError option \<times> Route \<times> World" where
  "getRoute ext key out w =
     (let c = ApiGet KRoute key in
      if fails ext w c then (Some OtherError, out, logCall c (Some OtherError) w)
      else case lookupObj key (routes w) of
             None \<Rightarrow> (Some NotFound, out, logCall c (Some NotFound) w)
           | Some obj \<Rightarrow> (None, obj, logCall c None w))"

text \<open>\<^verbatim>\<open>client.List(ctx, list, &client.ListOptions{Namespace: ns})\<close>\<close>

definition listMetricsClusters ::
  "Externals \<Rightarrow> string \<Rightarrow> World \<Rightarrow> ApiError option \<times> MetricsCluster list \<times> World" where
  "listMetricsClusters ext ns w =
     (let c = ApiList KMetricsCluster ns in
      if fails ext w c then (Some OtherError, [], logCall c (Some OtherError) w)
      else (None, inNamespace ns (clusters w), logCall c None w))"

definition listDeployments ::
  "Externals \<Rightarrow> string \<Rightarrow> World \<Rightarrow> ApiError option \<times> Deployment list \<times> World" where
  "listDeployments ext ns w =
     (let c = ApiList KDeployment ns in
      if fails ext w c then (Some OtherError, [], logCall c (Some OtherError) w)
      else (None, inNamespace ns (deployments w), logCall c None w))"

text \<open>\<^verbatim>\<open>client.Create\<close>: refused with already-exists when the key is taken.\<close>

definition createDeployment :: "Externals \<Rightarrow> Deployment \<Rightarrow> World \<Rightarrow> ApiError option \<times> World" where
  "createDeployment ext obj w =
     (let c = ApiCreate KDeployment (objKey obj) in
      if fails ext w c then (Some OtherError, logCall c (Some OtherError) w)
      else if lookupObj (objKey obj) (deployments w) = None
      then (None, logCall c None (w\<lparr>deployments := deployments w @ [obj]\<rparr>))
      else (Some AlreadyExists, logCall c (Some AlreadyExists) w))"

definition createService :: "Externals \<Rightarrow> Service \<Rightarrow> World \<Rightarrow> ApiError option \<times> World" where
  "createService ext obj w =
     (let c = ApiCreate KService (objKey obj) in
      if fails ext w c then (Some OtherError, logCall c (Some OtherError) w)
      else if lookupObj (objKey obj) (services w) = None
      then (None, logCall c None (w\<lparr>services := services w @ [obj]\<rparr>))
      else (Some AlreadyExists, logCall c (Some AlreadyExists) w))"

definition createRoute :: "Externals \<Rightarrow> Route \<Rightarrow> World \<Rightarrow> ApiError option \<times> World" where
  "createRoute ext obj w =
     (let c = ApiCreate KRoute (objKey obj) in
      if fails ext w c then (Some OtherError, logCall c (Some OtherError) w)
      else if lookupObj (objKey obj) (routes w) = None
      then (None, logCall c None (w\<lparr>routes := routes w @ [obj]\<rparr>))
      else (Some AlreadyExists, logCall c (Some AlreadyExists) w))"

text \<open>\<^verbatim>\<open>client.Update\<close> replaces the stored object of the same key; \<^verbatim>\<open>client.Delete\<close> removes it.\<close>

definition updateDeployment :: "Externals \<Rightarrow> Deployment \<Rightarrow> World \<Rightarrow> ApiError option \<times> World" where
  "updateDeployment ext obj w =
     (let c = ApiUpdate KDeployment (objKey obj) in
      if fails ext w c then (Some OtherError, logCall c (Some OtherError) w)
      else if lookupObj (objKey obj) (deployments w) = None
      then (Some NotFound, logCall c (Some NotFound) w)
      else (None, logCall c None
              (w\<lparr>deployments := map (\<lambda>d. if objKey d = objKey obj then obj else d) (deployments w)\<rparr>)))"

definition deleteDeployment :: "Externals \<Rightarrow> Deployment \<Rightarrow> World \<Rightarrow> ApiError option \<times> World" where
  "deleteDeployment ext obj w =
     (let c = ApiDelete KDeployment (objKey obj) in
      if fails ext w c then (Some OtherError, logCall c (Some OtherError) w)
      else if lookupObj (objKey obj) (deployments w) = None
      then (Some NotFound, logCall c (Some NotFound) w)
      else (None, logCall c None
              (w\<lparr>deployments := filter (\<lambda>d. objKey d \<noteq> objKey obj) (deployments w)\<rparr>)))"

definition isWrite :: "ApiCall \<Rightarrow> bool" where
  "isWrite c = (case c of ApiCreate k n \<Rightarrow> True | ApiUpdate k n \<Rightarrow> True | ApiDelete k n \<Rightarrow> True
                | ApiGet k n \<Rightarrow> False | ApiList k ns \<Rightarrow> False)"

definition callsSince :: "World \<Rightarrow> World \<Rightarrow> (ApiCall \<times> ApiError option) list" where
  "callsSince w w' = drop (length (apiLog w)) (apiLog w')"
  \<comment> \<open>the API calls made between the world \<open>w\<close> and the later world \<open>w'\<close>\<close>

definition writesSince :: "World \<Rightarrow> World \<Rightarrow> ApiCall list" where
  "writesSince w w' = filter isWrite (map fst (callsSince w w'))"

section \<open>Identity scheme\<close>

text \<open>
  \<^verbatim>\<open>strings.ReplaceAll(s, old, new)\<close>: every non-overlapping instance of \<open>old\<close>, from
  the left. For an empty \<open>old\<close> Go inserts \<open>new\<close> before every UTF-8 sequence and at the
  end; the model does so for every byte, which is the same on ASCII text.
\<close>

fun replaceFrom :: "string \<Rightarrow> string \<Rightarrow> string \<Rightarrow> string" where
  "replaceFrom [] old new = []"
| "replaceFrom (c # cs) old new =
     (if take (length old) (c # cs) = old
      then new @ replaceFrom (drop (length old - 1) cs) old new
      else c # replaceFrom cs old new)"

definition replaceAll :: "string \<Rightarrow> string \<Rightarrow> string \<Rightarrow> string" where
  "replaceAll s old new =
     (if old = [] then new @ concat (map (\<lambda>c. c # new) s) else replaceFrom s old new)"

text \<open>\<^verbatim>\<open>fmt.Sprintf("%x", bytes)\<close>: two lower-case hexadecimal digits for each byte.\<close>

definition hexDigit :: "nat \<Rightarrow> char" where
  "hexDigit n = ''0123456789abcdef'' ! (n mod 16)"

definition hexByte :: "8 word \<Rightarrow> string" where
  "hexByte b = [hexDigit (unat b div 16), hexDigit (unat b mod 16)]"

definition prometheusDeploymentName :: "Operator \<Rightarrow> Externals \<Rightarrow> Job \<Rightarrow> NamespacedName" where
  "prometheusDeploymentName op ext job =
     (let hash = sha256Sum ext (StatusURL (ProwJob job));
          name = ''prometheus-'' @ concat (map hexByte (take 6 hash))
      in (OperatorNamespace op, name))"

definition thanosStoreServiceName :: "Operator \<Rightarrow> MetricsCluster \<Rightarrow> NamespacedName" where
  "thanosStoreServiceName op cluster = (OperatorNamespace op, ''store-'' @ Name cluster)"

definition thanosQueryDeploymentName :: "Operator \<Rightarrow> MetricsCluster \<Rightarrow> NamespacedName" where
  "thanosQueryDeploymentName op cluster = (OperatorNamespace op, ''query-'' @ Name cluster)"

definition thanosQueryServiceName :: "Operator \<Rightarrow> MetricsCluster \<Rightarrow> NamespacedName" where
  "thanosQueryServiceName op cluster = (OperatorNamespace op, ''query-'' @ Name cluster)"

definition thanosQueryRouteName :: "Operator \<Rightarrow> MetricsCluster \<Rightarrow> NamespacedName" where
  "thanosQueryRouteName op cluster = (OperatorNamespace op, ''query-'' @ Name cluster)"

section \<open>Manifest builders\<close>

definition deploymentInitScript :: string where
  "deploymentInitScript = concat (map (\<lambda>l. l @ [CHR 0x0A])
     [''set -uxo pipefail'',
      ''umask 0000'',
      ''curl -sL ${PROMTAR} | tar xvz -m'',
      ''chown -R 65534:65534 /prometheus'',
      [],
      ''cat >/prometheus/prometheus.yml <<EOL'',
      ''# my global config'',
      ''global:'',
      ''  external_labels:'',
      ''    cluster_name: '' @ [CHR 0x27] @ ''${DEPLOYMENT_NAME}'' @ [CHR 0x27],
      ''    cluster_url: '' @ [CHR 0x27] @ ''${PROW_URL}'' @ [CHR 0x27],
      ''    cluster_job: '' @ [CHR 0x27] @ ''${PROW_JOB}'' @ [CHR 0x27],
      [],
      ''scrape_configs:'',
      ''  - job_name: '' @ [CHR 0x27] @ ''prometheus'' @ [CHR 0x27],
      ''    static_configs:'',
      ''    - targets: ['' @ [CHR 0x27] @ ''localhost:9090'' @ [CHR 0x27] @ '']'',
      ''EOL''])"

definition readinessProbe :: "nat \<Rightarrow> Probe" where
  "readinessProbe port = \<lparr>TimeoutSeconds = 1, PeriodSeconds = 10, SuccessThreshold = 1,
     FailureThreshold = 3, HTTPGetPath = ''/'', HTTPGetPort = port, HTTPGetScheme = ''HTTP''\<rparr>"

text \<open>
  \<^verbatim>\<open>prometheusDeploymentManifest\<close> (lines 382-555). Two of its expressions can panic:
  \<^verbatim>\<open>job.Status.CompletionTime.UTC()\<close> (lines 397 and 417) calls the method that
  \<^verbatim>\<open>metav1.Time\<close> takes from the embedded \<^verbatim>\<open>time.Time\<close> through a pointer, a nil
  dereference when the pointer is nil; and \<^verbatim>\<open>resource.MustParse(o.PrometheusMemory)\<close>
  (line 490) panics on a text that is no quantity. \<^verbatim>\<open>resource.MustParse("100m")\<close> parses.
\<close>

definition prometheusDeploymentManifest :: "Operator \<Rightarrow> Externals \<Rightarrow> Job \<Rightarrow> Failure + Deployment" where
  "prometheusDeploymentManifest op ext job =
     (let name = prometheusDeploymentName op ext job;
          url = StatusURL (ProwJob job);
          started = StatusStartTime (ProwJob job)
      in case StatusCompletionTime (ProwJob job) of
           None \<Rightarrow> Inl (Panic ''invalid memory address or nil pointer dereference'')
         | Some completed \<Rightarrow>
        (case parseQuantity ext (PrometheusMemory op) of
           None \<Rightarrow> Inl (Panic ''cannot parse quantity'')
         | Some memory \<Rightarrow> Inr
            \<lparr>Namespace = fst name,
             Name = snd name,
             Labels = [''app'' \<mapsto> ''prometheus''],
             Annotations = [''url'' \<mapsto> url, ''started'' \<mapsto> started, ''completed'' \<mapsto> completed],
             Spec =
               \<lparr>Replicas = Some 1,
                SelectorMatchLabels = [''app'' \<mapsto> ''prometheus'', ''prometheus'' \<mapsto> snd name],
                Template =
                  \<lparr>Namespace = [],
                   Name = [],
                   Labels = [''app'' \<mapsto> ''prometheus'', ''prometheus'' \<mapsto> snd name],
                   Annotations = [''url'' \<mapsto> url, ''started'' \<mapsto> started, ''completed'' \<mapsto> completed],
                   PodSpec =
                     \<lparr>ShareProcessNamespace = Some True,
                      Volumes = [''prometheus-storage-volume''],
                      InitContainers =
                        [\<lparr>ContainerName = ''setup'',
                          Image = FetcherImage op,
                          Command = [''/bin/bash'', ''-c'', deploymentInitScript],
                          WorkingDir = ''/prometheus/'',
                          EnvVars = [(''PROMTAR'', PrometheusTarURL job),
                                     (''DEPLOYMENT_NAME'', snd name),
                                     (''PROW_URL'', url),
                                     (''PROW_JOB'', SpecJob (ProwJob job))],
                          Ports = [],
                          VolumeMounts = [(''prometheus-storage-volume'', ''/prometheus/'')],
                          Requests = Map.empty,
                          ReadinessProbe = None\<rparr>],
                      Containers =
                        [\<lparr>ContainerName = ''prometheus'',
                          Image = PrometheusImage op,
                          Command = [''/bin/prometheus'',
                                     ''--storage.tsdb.max-block-duration=2h'',
                                     ''--storage.tsdb.min-block-duration=2h'',
                                     ''--web.enable-lifecycle'',
                                     ''--storage.tsdb.path=/prometheus'',
                                     ''--config.file=/prometheus/prometheus.yml''],
                          WorkingDir = [],
                          EnvVars = [],
                          Ports = [(''webui'', ''TCP'', 9090)],
                          VolumeMounts = [(''prometheus-storage-volume'', ''/prometheus/'')],
                          Requests = [''cpu'' \<mapsto> ''100m'', ''memory'' \<mapsto> memory],
                          ReadinessProbe = Some (readinessProbe 9090)\<rparr>,
                         \<lparr>ContainerName = ''thanos-sidecar'',
                          Image = ThanosImage op,
                          Command = [''/bin/thanos'',
                                     ''sidecar'',
                                     ''--tsdb.path=/prometheus'',
                                     ''--prometheus.url=http://localhost:9090'',
                                     ''--shipper.upload-compacted''],
                          WorkingDir = [],
                          EnvVars = [],
                          Ports = [(''webui'', ''TCP'', 9090)],
                          VolumeMounts = [(''prometheus-storage-volume'', ''/prometheus/'')],
                          Requests = Map.empty,
                          ReadinessProbe = Some (readinessProbe 9090)\<rparr>]\<rparr>\<rparr>\<rparr>\<rparr>))"

definition thanosStoreServiceManifest :: "Operator \<Rightarrow> MetricsCluster \<Rightarrow> Service" where
  "thanosStoreServiceManifest op cluster =
     (let name = thanosStoreServiceName op cluster in
      \<lparr>Namespace = fst name,
       Name = snd name,
       Labels = Map.empty,
       Annotations = Map.empty,
       ClusterIP = ''None'',
       ServicePorts = [(''grpc'', 10901, ''TCP''), (''http'', 10902, ''TCP'')],
       Selector = [''app'' \<mapsto> ''prometheus'', Name cluster \<mapsto> ''true'']\<rparr>)"

definition thanosQueryDeploymentManifest :: "Operator \<Rightarrow> MetricsCluster \<Rightarrow> Deployment" where
  "thanosQueryDeploymentManifest op cluster =
     (let name = thanosQueryDeploymentName op cluster;
          storeServiceName = thanosStoreServiceName op cluster
      in
      \<lparr>Namespace = fst name,
       Name = snd name,
       Labels = [''app'' \<mapsto> ''thanos-query''],
       Annotations = Map.empty,
       Spec =
         \<lparr>Replicas = Some 1,
          SelectorMatchLabels = [''app'' \<mapsto> ''thanos-query'', ''cluster'' \<mapsto> Name cluster],
          Template =
            \<lparr>Namespace = [],
             Name = [],
             Labels = [''app'' \<mapsto> ''thanos-query'', ''cluster'' \<mapsto> Name cluster],
             Annotations = Map.empty,
             PodSpec =
               \<lparr>ShareProcessNamespace = None,
                Volumes = [],
                InitContainers = [],
                Containers =
                  [\<lparr>ContainerName = ''query'',
                    Image = ThanosImage op,
                    Command = [''/bin/thanos'',
                               ''query'',
                               ''--http-address=0.0.0.0:19192'',
                               ''--store.sd-dns-interval=10s'',
                               ''--store=dnssrv+_grpc._tcp.'' @ snd storeServiceName @ ''.''
                                 @ fst storeServiceName @ ''.svc''],
                    WorkingDir = [],
                    EnvVars = [],
                    Ports = [(''http'', ''TCP'', 19192)],
                    VolumeMounts = [],
                    Requests = Map.empty,
                    ReadinessProbe = Some (readinessProbe 19192)\<rparr>]\<rparr>\<rparr>\<rparr>\<rparr>)"

definition thanosQueryServiceManifest :: "Operator \<Rightarrow> MetricsCluster \<Rightarrow> Service" where
  "thanosQueryServiceManifest op cluster =
     (let name = thanosQueryServiceName op cluster in
      \<lparr>Namespace = fst name,
       Name = snd name,
       Labels = Map.empty,
       Annotations = Map.empty,
       ClusterIP = [],
       ServicePorts = [(''http'', 19192, ''TCP''), (''grpc'', 10901, ''TCP'')],
       Selector = [''app'' \<mapsto> ''thanos-query'', ''cluster'' \<mapsto> Name cluster]\<rparr>)"

definition thanosQueryRouteManifest :: "Operator \<Rightarrow> MetricsCluster \<Rightarrow> Route" where
  "thanosQueryRouteManifest op cluster =
     (let name = thanosQueryRouteName op cluster;
          queryServiceName = thanosQueryServiceName op cluster
      in
      \<lparr>Namespace = fst name,
       Name = snd name,
       Labels = Map.empty,
       Annotations = Map.empty,
       ToKind = ''Service'',
       ToName = snd queryServiceName,
       TargetPort = ''http'',
       TLSTermination = ''edge'',
       InsecureEdgeTerminationPolicy = ''Redirect''\<rparr>)"

section \<open>Metadata resolver\<close>

text \<open>
  \<^verbatim>\<open>findPrometheusTarURL\<close> (lines 757-772). The lock is not modelled: calls are
  sequential here. A lookup that is made is appended to \<open>netLog\<close>.
\<close>

definition findPrometheusTarURL ::
  "Externals \<Rightarrow> string \<Rightarrow> string \<Rightarrow> World \<Rightarrow> (string + string) \<times> World" where
  "findPrometheusTarURL ext jobURL gcsPrefix w =
     (case prometheusURLs w jobURL of
        Some prometheusURL \<Rightarrow> (Inr prometheusURL, w)
      | None \<Rightarrow>
          (let w1 = w\<lparr>netLog := netLog w @ [TarLookup jobURL gcsPrefix]\<rparr> in
           case getTarURLFromProw ext jobURL gcsPrefix of
             Inl err \<Rightarrow> (Inl err, w1)
           | Inr tarURL \<Rightarrow>
               (Inr tarURL, w1\<lparr>prometheusURLs := (prometheusURLs w1)(jobURL \<mapsto> tarURL)\<rparr>)))"

section \<open>Convergence engine\<close>

definition templateLabels :: "Deployment \<Rightarrow> StringMap" where
  "templateLabels d = Labels (Template (Spec d))"
  \<comment> \<open>\<^verbatim>\<open>d.Spec.Template.Labels\<close>\<close>

definition setTemplateLabels :: "StringMap \<Rightarrow> DeploymentSpec \<Rightarrow> DeploymentSpec" where
  "setTemplateLabels m s = s\<lparr>Template := (Template s)\<lparr>Labels := m\<rparr>\<rparr>"

subsection \<open>Deployments (lines 149-199)\<close>

definition isReferenced :: "MetricsCluster list \<Rightarrow> Deployment \<Rightarrow> bool" where
  "isReferenced items deployment =
     list_ex (\<lambda>cluster. templateLabels deployment (Name cluster) \<noteq> None) items"
  \<comment> \<open>the loop of lines 179-185\<close>

definition reconcilePrometheusDeployment ::
  "Operator \<Rightarrow> Externals \<Rightarrow> Deployment \<Rightarrow> World \<Rightarrow> Result \<times> World" where
  "reconcilePrometheusDeployment op ext deployment w =
     (case listMetricsClusters ext (OperatorNamespace op) w of
        (Some err, items, w1) \<Rightarrow> (Inl (Error ''couldn't fetch metricsclusters'' err), w1)
      | (None, items, w1) \<Rightarrow>
          if isReferenced items deployment then (Inr (), w1)
          else (case deleteDeployment ext deployment w1 of
                  (None, w2) \<Rightarrow> (Inr (), w2)
                | (Some err, w2) \<Rightarrow>
                    if err = NotFound then (Inr (), w2)
                    else (Inl (Error ''couldn't delete deployment'' err), w2)))"

definition reconcileDeployment ::
  "Operator \<Rightarrow> Externals \<Rightarrow> NamespacedName \<Rightarrow> World \<Rightarrow> Result \<times> World" where
  "reconcileDeployment op ext request w =
     (case getDeployment ext request zeroDeployment w of
        (Some err, deployment, w1) \<Rightarrow>
          if err = NotFound then (Inr (), w1)
          else (Inl (Error ''couldn't fetch deployment'' err), w1)
      | (None, deployment, w1) \<Rightarrow>
          if Labels deployment ''app'' = Some ''prometheus''
          then reconcilePrometheusDeployment op ext deployment w1
          else (Inr (), w1))"

subsection \<open>MetricsClusters (lines 201-374)\<close>

text \<open>
  Lines 214-224, the loop over the listed deployments once the cluster is not found. A
  failed update is logged and the loop goes on.
\<close>

fun removeReferences :: "Externals \<Rightarrow> string \<Rightarrow> Deployment list \<Rightarrow> World \<Rightarrow> World" where
  "removeReferences ext clusterName [] w = w"
| "removeReferences ext clusterName (deployment # items) w =
     (if templateLabels deployment clusterName \<noteq> None
      then (let deployment' = deployment\<lparr>Spec :=
                    setTemplateLabels ((templateLabels deployment)(clusterName := None)) (Spec deployment)\<rparr>;
                (err, w1) = updateDeployment ext deployment' w
            in removeReferences ext clusterName items w1)
      else removeReferences ext clusterName items w)"

text \<open>
  Lines 243-286, the body of the loop over the job URLs from the resolver's call on
  (\<open>reconcileJob\<close>; its lines 264-286 are \<open>convergePrometheusDeployment\<close>).
  \<open>Inr ()\<close> is the end of the iteration (by \<^verbatim>\<open>continue\<close> or at the end of the body),
  \<open>Inl\<close> a return from the reconciler or a panic.

  Line 266 assigns the struct \<^verbatim>\<open>desiredPrometheusDeployment.Spec\<close> to
  \<^verbatim>\<open>prometheusDeployment.Spec\<close>. The assignment copies the struct, not the map that
  its field \<^verbatim>\<open>Template.Labels\<close> refers to: both objects hold the same map from then
  on, and the write of line 267 is seen through both. So \<open>merged\<close> below is the
  \<^verbatim>\<open>Spec\<close> of both objects when line 268 compares them. The update is made when
  one of the three comparisons of lines 268-270 finds a difference, that is, unless all
  three find none.
\<close>

definition convergePrometheusDeployment ::
  "Operator \<Rightarrow> Externals \<Rightarrow> MetricsCluster \<Rightarrow> string \<Rightarrow> Job \<Rightarrow> bool \<Rightarrow> Deployment \<Rightarrow> World
     \<Rightarrow> Result \<times> World" where
  "convergePrometheusDeployment op ext cluster url job hasPrometheusDeployment prometheusDeployment w =
     (case prometheusDeploymentManifest op ext job of
        Inl panic \<Rightarrow> (Inl panic, w)
      | Inr desiredPrometheusDeployment \<Rightarrow>
          (let merged = setTemplateLabels
                 ((templateLabels desiredPrometheusDeployment)(Name cluster \<mapsto> ''true''))
                 (Spec desiredPrometheusDeployment);
               desired' = desiredPrometheusDeployment\<lparr>Spec := merged\<rparr>;
               prometheusDeployment' = prometheusDeployment\<lparr>Spec := merged\<rparr>
           in if hasPrometheusDeployment
              then
                if Spec prometheusDeployment' = Spec desired'
                   \<and> Labels prometheusDeployment' = Labels desired'
                   \<and> Annotations prometheusDeployment' = Annotations desired'
                then (Inr (), w)
                else (case updateDeployment ext prometheusDeployment' w of
                        (Some e, w1) \<Rightarrow>
                          (Inl (Error (''couldn't update deployment for url '' @ url) e), w1)
                      | (None, w1) \<Rightarrow> (Inr (), w1))
              else
                (case createDeployment ext desired' w of
                   (Some e, w1) \<Rightarrow>
                     (Inl (Error (''couldn't create deployment for url '' @ url) e), w1)
                 | (None, w1) \<Rightarrow> (Inr (), w1))))"

definition reconcileJob ::
  "Operator \<Rightarrow> Externals \<Rightarrow> MetricsCluster \<Rightarrow> string \<Rightarrow> ProwJob \<Rightarrow> World \<Rightarrow> Result \<times> World" where
  "reconcileJob op ext cluster url prowJob w =
     (case findPrometheusTarURL ext url (GCSPrefix op) w of
        (Inl err, w1) \<Rightarrow> (Inr (), w1)
      | (Inr prometheusTarURL, w1) \<Rightarrow>
          (let job = \<lparr>ProwJob = prowJob, PrometheusTarURL = prometheusTarURL\<rparr> in
           case getDeployment ext (prometheusDeploymentName op ext job) zeroDeployment w1 of
             (None, prometheusDeployment, w2) \<Rightarrow>
               convergePrometheusDeployment op ext cluster url job True prometheusDeployment w2
           | (Some err, prometheusDeployment, w2) \<Rightarrow>
               if err = NotFound
               then convergePrometheusDeployment op ext cluster url job False prometheusDeployment w2
               else (Inl (Error ''couldn't fetch deployment'' err), w2)))"

text \<open>Lines 231-242: the metadata document is fetched and decoded; a decode error is only logged.\<close>

definition prowInfoURL :: "Operator \<Rightarrow> string \<Rightarrow> string" where
  "prowInfoURL op url = replaceAll url (ProwBaseURL op) (GCSStorageBaseURL op) @ ''/prowjob.json''"
  \<comment> \<open>line 231\<close>

definition reconcileURL ::
  "Operator \<Rightarrow> Externals \<Rightarrow> MetricsCluster \<Rightarrow> string \<Rightarrow> World \<Rightarrow> Result \<times> World" where
  "reconcileURL op ext cluster url w =
     (let w0 = w\<lparr>netLog := netLog w @ [HttpGet (prowInfoURL op url)]\<rparr>
      in case httpGet ext (prowInfoURL op url) of
           GetFailed \<Rightarrow> (Inr (), w0)
         | Decoded prowJob \<Rightarrow> reconcileJob op ext cluster url prowJob w0
         | DecodeFailed prowJob \<Rightarrow> reconcileJob op ext cluster url prowJob w0)"

fun reconcileURLs ::
  "Operator \<Rightarrow> Externals \<Rightarrow> MetricsCluster \<Rightarrow> string list \<Rightarrow> World \<Rightarrow> Result \<times> World" where
  "reconcileURLs op ext cluster [] w = (Inr (), w)"
| "reconcileURLs op ext cluster (url # urls) w =
     (case reconcileURL op ext cluster url w of
        (Inl e, w1) \<Rightarrow> (Inl e, w1)
      | (Inr u, w1) \<Rightarrow> reconcileURLs op ext cluster urls w1)"

text \<open>Lines 289-371: the four objects of the cluster itself, each created when it is not found.\<close>

definition ensureStoreService :: "Operator \<Rightarrow> Externals \<Rightarrow> MetricsCluster \<Rightarrow> World \<Rightarrow> Result \<times> World" where
  "ensureStoreService op ext cluster w =
     (case getService ext (thanosStoreServiceName op cluster) zeroService w of
        (None, storeService, w1) \<Rightarrow> (Inr (), w1)
      | (Some err, storeService, w1) \<Rightarrow>
          if err = NotFound
          then (case createService ext (thanosStoreServiceManifest op cluster) w1 of
                  (Some e, w2) \<Rightarrow> (Inl (Error ''couldn't create service'' e), w2)
                | (None, w2) \<Rightarrow> (Inr (), w2))
          else (Inl (Error ''couldn't fetch service'' err), w1))"

definition ensureQueryDeployment :: "Operator \<Rightarrow> Externals \<Rightarrow> MetricsCluster \<Rightarrow> World \<Rightarrow> Result \<times> World" where
  "ensureQueryDeployment op ext cluster w =
     (case getDeployment ext (thanosQueryDeploymentName op cluster) zeroDeployment w of
        (None, queryDeployment, w1) \<Rightarrow> (Inr (), w1)
      | (Some err, queryDeployment, w1) \<Rightarrow>
          if err = NotFound
          then (case createDeployment ext (thanosQueryDeploymentManifest op cluster) w1 of
                  (Some e, w2) \<Rightarrow> (Inl (Error ''couldn't create deployment'' e), w2)
                | (None, w2) \<Rightarrow> (Inr (), w2))
          else (Inl (Error ''couldn't fetch deployment'' err), w1))"

definition ensureQueryService :: "Operator \<Rightarrow> Externals \<Rightarrow> MetricsCluster \<Rightarrow> World \<Rightarrow> Result \<times> World" where
  "ensureQueryService op ext cluster w =
     (case getService ext (thanosQueryServiceName op cluster) zeroService w of
        (None, queryService, w1) \<Rightarrow> (Inr (), w1)
      | (Some err, queryService, w1) \<Rightarrow>
          if err = NotFound
          then (case createService ext (thanosQueryServiceManifest op cluster) w1 of
                  (Some e, w2) \<Rightarrow> (Inl (Error ''couldn't create service'' e), w2)
                | (None, w2) \<Rightarrow> (Inr (), w2))
          else (Inl (Error ''couldn't fetch service'' err), w1))"

definition ensureQueryRoute :: "Operator \<Rightarrow> Externals \<Rightarrow> MetricsCluster \<Rightarrow> World \<Rightarrow> Result \<times> World" where
  "ensureQueryRoute op ext cluster w =
     (case getRoute ext (thanosQueryRouteName op cluster) zeroRoute w of
        (None, queryRoute, w1) \<Rightarrow> (Inr (), w1)
      | (Some err, queryRoute, w1) \<Rightarrow>
          if err = NotFound
          then (case createRoute ext (thanosQueryRouteManifest op cluster) w1 of
                  (Some e, w2) \<Rightarrow> (Inl (Error ''couldn't create route'' e), w2)
                | (None, w2) \<Rightarrow> (Inr (), w2))
          else (Inl (Error ''couldn't fetch route'' err), w1))"

definition andThen :: "Result \<times> World \<Rightarrow> (World \<Rightarrow> Result \<times> World) \<Rightarrow> Result \<times> World" where
  "andThen rw next = (case rw of (Inl e, w) \<Rightarrow> (Inl e, w) | (Inr u, w) \<Rightarrow> next w)"
  \<comment> \<open>a step that returned an error ends the reconciliation; otherwise the next step runs\<close>

definition ensureClusterObjects :: "Operator \<Rightarrow> Externals \<Rightarrow> MetricsCluster \<Rightarrow> World \<Rightarrow> Result \<times> World" where
  "ensureClusterObjects op ext cluster w =
     andThen (ensureStoreService op ext cluster w) (\<lambda>w1.
     andThen (ensureQueryDeployment op ext cluster w1) (\<lambda>w2.
     andThen (ensureQueryService op ext cluster w2) (\<lambda>w3.
     ensureQueryRoute op ext cluster w3)))"

definition reconcileMetricsCluster ::
  "Operator \<Rightarrow> Externals \<Rightarrow> NamespacedName \<Rightarrow> World \<Rightarrow> Result \<times> World" where
  "reconcileMetricsCluster op ext request w =
     (case getMetricsCluster ext request zeroMetricsCluster w of
        (Some err, cluster, w1) \<Rightarrow>
          if err = NotFound
          then (case listDeployments ext (OperatorNamespace op) w1 of
                  (Some e, items, w2) \<Rightarrow> (Inl (Error ''couldn't list deployments'' e), w2)
                | (None, items, w2) \<Rightarrow> (Inr (), removeReferences ext (Name cluster) items w2))
          else (Inl (Error ''couldn't fetch metricscluster'' err), w1)
      | (None, cluster, w1) \<Rightarrow>
          andThen (reconcileURLs op ext cluster (URLs cluster) w1)
            (ensureClusterObjects op ext cluster))"

section \<open>Scenarios\<close>

text \<open>
  Concrete inputs on which the theorems below are run: the operator with the defaults of
  its command-line flags (lines 106-113), a job URL with its metadata document, and
  stand-ins for the external collaborators. \<open>sampleExternals\<close> serves every API call;
  its \<open>sha256Sum\<close> is a constant, which is enough where a single job URL is in play.
\<close>

definition defaultOperator :: Operator where
  "defaultOperator =
     \<lparr>OperatorNamespace = ''dowser'',
      FetcherImage = ''quay.io/fedora/fedora:31-x86_64'',
      PrometheusImage = ''quay.io/prometheus/prometheus:v2.17.2'',
      ThanosImage = ''quay.io/thanos/thanos:v0.14.0'',
      GCSStorageBaseURL = ''https://storage.googleapis.com/origin-ci-test'',
      ProwBaseURL = ''https://prow.ci.openshift.org/view/gs/origin-ci-test'',
      GCSPrefix = ''https://gcsweb-ci.apps.ci.l2s4.p1.openshiftapps.com'',
      PrometheusMemory = ''350Mi''\<rparr>"

definition jobURL :: string where
  "jobURL = ''https://prow.ci.openshift.org/view/gs/origin-ci-test/logs/e2e/1''"

definition jobInfoURL :: string where
  "jobInfoURL = ''https://storage.googleapis.com/origin-ci-test/logs/e2e/1/prowjob.json''"

definition jobTarURL :: string where
  "jobTarURL = ''https://gcsweb-ci.apps.ci.l2s4.p1.openshiftapps.com/gcs/origin-ci-test/logs/e2e/1/prometheus.tar''"

definition sampleProwJob :: ProwJob where
  "sampleProwJob = \<lparr>SpecJob = ''e2e'', StatusURL = jobURL,
     StatusStartTime = ''2020-08-01T10:00:00Z'',
     StatusCompletionTime = Some ''2020-08-01T11:00:00Z''\<rparr>"

definition sampleJob :: Job where
  "sampleJob = \<lparr>ProwJob = sampleProwJob, PrometheusTarURL = jobTarURL\<rparr>"

definition sampleExternals :: Externals where
  "sampleExternals =
     \<lparr>failing = (\<lambda>n c. False),
      httpGet = (\<lambda>u. if u = jobInfoURL then Decoded sampleProwJob else GetFailed),
      getTarURLFromProw = (\<lambda>u p. if u = jobURL then Inr jobTarURL else Inl ''no prometheus.tar''),
      sha256Sum = (\<lambda>s. [0x5e, 0x1f, 0xa0, 0x02, 0x7c, 0x33] @ replicate 26 0),
      parseQuantity = Some\<rparr>"

definition workloadKey :: NamespacedName where
  "workloadKey = (''dowser'', ''prometheus-5e1fa0027c33'')"

definition sampleWorkload :: Deployment where
  "sampleWorkload =
     (case prometheusDeploymentManifest defaultOperator sampleExternals sampleJob of
        Inr d \<Rightarrow> d | Inl panic \<Rightarrow> zeroDeployment)"
  \<comment> \<open>the manifest of the job's storage workload\<close>

definition referencedBy :: "string list \<Rightarrow> Deployment" where
  "referencedBy names = sampleWorkload\<lparr>Spec :=
     setTemplateLabels (templateLabels sampleWorkload ++ map_of (map (\<lambda>n. (n, ''true'')) names))
       (Spec sampleWorkload)\<rparr>"
  \<comment> \<open>the storage workload with a referencing label for each of the cluster names\<close>

definition clusterA :: MetricsCluster where
  "clusterA = \<lparr>Namespace = ''dowser'', Name = ''a'', Labels = Map.empty, Annotations = Map.empty,
     URLs = [jobURL]\<rparr>"

definition clusterB :: MetricsCluster where
  "clusterB = \<lparr>Namespace = ''dowser'', Name = ''b'', Labels = Map.empty, Annotations = Map.empty,
     URLs = [jobURL]\<rparr>"

definition worldOf :: "MetricsCluster list \<Rightarrow> Deployment list \<Rightarrow> World" where
  "worldOf cs ds = \<lparr>clusters = cs, deployments = ds, services = [], routes = [],
     prometheusURLs = Map.empty, apiLog = [], netLog = []\<rparr>"

definition revised :: "Deployment \<Rightarrow> Deployment" where
  "revised d = d\<lparr>Annotations := (Annotations d)(''deployment.kubernetes.io/revision'' \<mapsto> ''1'')\<rparr>"
  \<comment> \<open>the object with the revision annotation that the API's deployment controller puts
      on a Deployment\<close>

definition referencesOf :: "World \<Rightarrow> (NamespacedName \<times> string option \<times> string option) list" where
  "referencesOf w = map (\<lambda>d. (objKey d, templateLabels d ''a'', templateLabels d ''b'')) (deployments w)"
  \<comment> \<open>for each Deployment, its key and its pod-template labels \<open>a\<close> and \<open>b\<close>\<close>

text \<open>Sharing: the clusters \<open>a\<close> and \<open>b\<close> list the same job URL; \<open>a\<close> is reconciled, then \<open>b\<close>.\<close>

definition sharingAfterA :: World where
  "sharingAfterA = snd (reconcileMetricsCluster defaultOperator sampleExternals (''dowser'', ''a'')
     (worldOf [clusterA, clusterB] []))"

definition sharingAfterB :: World where
  "sharingAfterB = snd (reconcileMetricsCluster defaultOperator sampleExternals (''dowser'', ''b'')
     sharingAfterA)"

text \<open>The same, with the revision annotation on the workload when \<open>b\<close> is reconciled.\<close>

definition erasureBefore :: World where
  "erasureBefore = worldOf [clusterA, clusterB] [revised (referencedBy [''a''])]"

definition erasureAfterB :: World where
  "erasureAfterB = snd (reconcileMetricsCluster defaultOperator sampleExternals (''dowser'', ''b'')
     erasureBefore)"

text \<open>Cluster \<open>a\<close> has been deleted; the workload is labelled for \<open>a\<close> and \<open>b\<close>.\<close>

definition deletionBefore :: World where
  "deletionBefore = worldOf [clusterB] [referencedBy [''a'', ''b'']]"

text \<open>Cluster \<open>a\<close> is reconciled twice in a row.\<close>

definition idempotenceBefore :: World where
  "idempotenceBefore = worldOf [clusterA] [revised (referencedBy [''a''])]"

definition idempotenceFirst :: World where
  "idempotenceFirst = snd (reconcileMetricsCluster defaultOperator sampleExternals (''dowser'', ''a'')
     idempotenceBefore)"

definition idempotenceSecond :: World where
  "idempotenceSecond = snd (reconcileMetricsCluster defaultOperator sampleExternals (''dowser'', ''a'')
     idempotenceFirst)"

text \<open>
  The metadata document does not decode and leaves \<^verbatim>\<open>prowJob\<close> at its zero value; or it
  decodes to a job that has not completed; or the API refuses to create the Store Service.
\<close>

definition undecodedExternals :: Externals where
  "undecodedExternals = sampleExternals
     \<lparr>httpGet := (\<lambda>u. if u = jobInfoURL then DecodeFailed zeroProwJob else GetFailed)\<rparr>"

definition runningJobExternals :: Externals where
  "runningJobExternals = sampleExternals
     \<lparr>httpGet := (\<lambda>u. if u = jobInfoURL
                      then Decoded (sampleProwJob\<lparr>StatusCompletionTime := None\<rparr>) else GetFailed)\<rparr>"


section \<open>Failed creates in the call log\<close>

definition failedCreate :: "ApiCall \<times> ApiError option \<Rightarrow> bool" where
  "failedCreate x = (case x of (ApiCreate k n, Some e) \<Rightarrow> True | _ \<Rightarrow> False)"

definition endsAtFailedCreate :: "Result \<Rightarrow> (ApiCall \<times> ApiError option) list \<Rightarrow> bool" where
  "endsAtFailedCreate r new =
     (\<forall>x\<in>set new. failedCreate x \<longrightarrow>
        x = last new \<and> (\<exists>msg e. snd x = Some e \<and> r = Inl (Error msg e)))"
  \<comment> \<open>a failed create among the calls \<open>new\<close> is the last of them, and \<open>r\<close> is its error\<close>


section \<open>Evaluation support\<close>

lemmas api_defs = getMetricsCluster_def getDeployment_def getService_def getRoute_def
  listMetricsClusters_def listDeployments_def createDeployment_def createService_def createRoute_def
  updateDeployment_def deleteDeployment_def logCall_def fails_def lookupObj_def inNamespace_def

lemmas engine_defs = reconcileMetricsCluster_def reconcileURL_def reconcileJob_def
  convergePrometheusDeployment_def findPrometheusTarURL_def ensureClusterObjects_def
  ensureStoreService_def ensureQueryDeployment_def ensureQueryService_def ensureQueryRoute_def
  andThen_def

lemma objKey_update [simp]:
  "objKey (d\<lparr>Spec := s\<rparr>) = objKey d"
  "objKey (d\<lparr>Annotations := a\<rparr>) = objKey d"
  by (simp_all add: objKey_def)

lemma templateLabels_set [simp]: "templateLabels (d\<lparr>Spec := setTemplateLabels m s\<rparr>) = m"
  by (simp add: templateLabels_def setTemplateLabels_def)

lemma cluster_objects_keys [simp]:
  "objKey (thanosStoreServiceManifest op c) = thanosStoreServiceName op c"
  "objKey (thanosQueryDeploymentManifest op c) = thanosQueryDeploymentName op c"
  "objKey (thanosQueryServiceManifest op c) = thanosQueryServiceName op c"
  "objKey (thanosQueryRouteManifest op c) = thanosQueryRouteName op c"
  by (simp_all add: objKey_def thanosStoreServiceManifest_def thanosQueryDeploymentManifest_def
      thanosQueryServiceManifest_def thanosQueryRouteManifest_def Let_def)

subsection \<open>The scenarios' constants\<close>

lemma sample_prowInfoURL [simp]: "prowInfoURL defaultOperator jobURL = jobInfoURL"
  by (simp add: prowInfoURL_def replaceAll_def jobURL_def jobInfoURL_def defaultOperator_def)

lemma sample_externals [simp]:
  "failing sampleExternals n c = False"
  "httpGet sampleExternals jobInfoURL = Decoded sampleProwJob"
  "getTarURLFromProw sampleExternals jobURL p = Inr jobTarURL"
  by (simp_all add: sampleExternals_def)

lemma sample_name [simp]:
  "prometheusDeploymentName defaultOperator sampleExternals sampleJob = workloadKey"
  by (simp add: prometheusDeploymentName_def defaultOperator_def sampleExternals_def
      hexByte_def hexDigit_def workloadKey_def)

lemma sample_manifest [simp]:
  "prometheusDeploymentManifest defaultOperator sampleExternals sampleJob = Inr sampleWorkload"
  by (simp add: sampleWorkload_def prometheusDeploymentManifest_def sampleJob_def sampleProwJob_def
      sampleExternals_def Let_def)

lemma sampleWorkload_meta [simp]:
  "objKey sampleWorkload = workloadKey"
  "Labels sampleWorkload = [''app'' \<mapsto> ''prometheus'']"
  "Annotations sampleWorkload = [''url'' \<mapsto> jobURL, ''started'' \<mapsto> ''2020-08-01T10:00:00Z'',
     ''completed'' \<mapsto> ''2020-08-01T11:00:00Z'']"
  "templateLabels sampleWorkload = [''app'' \<mapsto> ''prometheus'', ''prometheus'' \<mapsto> snd workloadKey]"
  using sample_name
  by (simp_all add: sampleWorkload_def prometheusDeploymentManifest_def sampleJob_def sampleProwJob_def
      sampleExternals_def objKey_def templateLabels_def Let_def prod_eq_iff)

lemma sample_cluster_names [simp]:
  "thanosStoreServiceName defaultOperator clusterA = (''dowser'', ''store-a'')"
  "thanosQueryDeploymentName defaultOperator clusterA = (''dowser'', ''query-a'')"
  "thanosQueryServiceName defaultOperator clusterA = (''dowser'', ''query-a'')"
  "thanosQueryRouteName defaultOperator clusterA = (''dowser'', ''query-a'')"
  "thanosStoreServiceName defaultOperator clusterB = (''dowser'', ''store-b'')"
  "thanosQueryDeploymentName defaultOperator clusterB = (''dowser'', ''query-b'')"
  "thanosQueryServiceName defaultOperator clusterB = (''dowser'', ''query-b'')"
  "thanosQueryRouteName defaultOperator clusterB = (''dowser'', ''query-b'')"
  by (simp_all add: thanosStoreServiceName_def thanosQueryDeploymentName_def
      thanosQueryServiceName_def thanosQueryRouteName_def defaultOperator_def clusterA_def clusterB_def)

lemma sample_clusters [simp]:
  "objKey clusterA = (''dowser'', ''a'')" "Name clusterA = ''a''" "URLs clusterA = [jobURL]"
  "objKey clusterB = (''dowser'', ''b'')" "Name clusterB = ''b''" "URLs clusterB = [jobURL]"
  "Namespace clusterA = ''dowser''" "Namespace clusterB = ''dowser''"
  by (simp_all add: clusterA_def clusterB_def objKey_def)

lemma sample_operator [simp]:
  "OperatorNamespace defaultOperator = ''dowser''"
  "GCSPrefix defaultOperator = ''https://gcsweb-ci.apps.ci.l2s4.p1.openshiftapps.com''"
  by (simp_all add: defaultOperator_def)

lemma sampleJob_eq [simp]: "\<lparr>ProwJob = sampleProwJob, PrometheusTarURL = jobTarURL\<rparr> = sampleJob"
  by (simp add: sampleJob_def)

lemma referencedBy_meta [simp]:
  "objKey (referencedBy names) = workloadKey"
  "Labels (referencedBy names) = [''app'' \<mapsto> ''prometheus'']"
  "Annotations (referencedBy names) = Annotations sampleWorkload"
  "templateLabels (referencedBy names)
     = templateLabels sampleWorkload ++ map_of (map (\<lambda>n. (n, ''true'')) names)"
  by (simp_all add: referencedBy_def)

lemma worldOf_fields [simp]:
  "clusters (worldOf cs ds) = cs" "deployments (worldOf cs ds) = ds"
  "services (worldOf cs ds) = []" "routes (worldOf cs ds) = []"
  "prometheusURLs (worldOf cs ds) = Map.empty" "apiLog (worldOf cs ds) = []"
  "netLog (worldOf cs ds) = []"
  by (simp_all add: worldOf_def)

lemma gone_fetch [simp]:
  "httpGet sampleExternals (prowInfoURL defaultOperator ''gone'') = GetFailed"
  by (simp add: prowInfoURL_def replaceAll_def defaultOperator_def sampleExternals_def
        jobInfoURL_def)


subsection \<open>The API client and the loops\<close>

lemma lookupObj_removed: "lookupObj key (filter (\<lambda>d. objKey d \<noteq> key) ds) = None"
  by (simp add: lookupObj_def find_None_iff)

lemma lookupObj_Some_key: "lookupObj key ds = Some d \<Longrightarrow> objKey d = key"
  by (auto simp: lookupObj_def find_Some_iff)

lemma isReferenced_iff:
  "isReferenced (inNamespace ns cs) d
     \<longleftrightarrow> (\<exists>c\<in>set cs. Namespace c = ns \<and> templateLabels d (Name c) \<noteq> None)"
  by (auto simp: isReferenced_def inNamespace_def list_ex_iff)

lemma logCall_fields [simp]:
  "apiLog (logCall c r w) = apiLog w @ [(c, r)]"
  "deployments (logCall c r w) = deployments w"
  "clusters (logCall c r w) = clusters w"
  "services (logCall c r w) = services w"
  "routes (logCall c r w) = routes w"
  "prometheusURLs (logCall c r w) = prometheusURLs w"
  "netLog (logCall c r w) = netLog w"
  by (simp_all add: logCall_def)

lemma writesSince_logCall_read [simp]:
  "writesSince w (logCall (ApiGet k n) r w) = []"
  by (simp add: writesSince_def callsSince_def isWrite_def)



lemma revised_meta [simp]:
  "objKey (revised d) = objKey d"
  "Labels (revised d) = Labels d"
  "Annotations (revised d) = (Annotations d)(''deployment.kubernetes.io/revision'' \<mapsto> ''1'')"
  "templateLabels (revised d) = templateLabels d"
  "Spec (revised d) = Spec d"
  by (simp_all add: revised_def objKey_def templateLabels_def)

lemma revised_Spec_update [simp]: "(revised d)\<lparr>Spec := s\<rparr> = revised (d\<lparr>Spec := s\<rparr>)"
  by (simp add: revised_def)

lemmas run_defs = engine_defs api_defs worldOf_def Let_def workloadKey_def

lemma name_failing_irrelevant [simp]:
  "prometheusDeploymentName op (ext\<lparr>failing := f\<rparr>) job = prometheusDeploymentName op ext job"
  by (simp add: prometheusDeploymentName_def)

lemma manifest_failing_irrelevant [simp]:
  "prometheusDeploymentManifest op (ext\<lparr>failing := f\<rparr>) job = prometheusDeploymentManifest op ext job"
  by (simp add: prometheusDeploymentManifest_def Let_def split: option.splits)

subsection \<open>The scenarios' runs\<close>

lemma sharing_run_A:
  "reconcileMetricsCluster defaultOperator sampleExternals (''dowser'', ''a'')
     (worldOf [clusterA, clusterB] []) =
   (Inr (),
    \<lparr>clusters = [clusterA, clusterB],
     deployments = [referencedBy [''a''], thanosQueryDeploymentManifest defaultOperator clusterA],
     services = [thanosStoreServiceManifest defaultOperator clusterA,
                 thanosQueryServiceManifest defaultOperator clusterA],
     routes = [thanosQueryRouteManifest defaultOperator clusterA],
     prometheusURLs = [jobURL \<mapsto> jobTarURL],
     apiLog =
       [(ApiGet KMetricsCluster (''dowser'', ''a''), None),
        (ApiGet KDeployment workloadKey, Some NotFound),
        (ApiCreate KDeployment workloadKey, None),
        (ApiGet KService (''dowser'', ''store-a''), Some NotFound),
        (ApiCreate KService (''dowser'', ''store-a''), None),
        (ApiGet KDeployment (''dowser'', ''query-a''), Some NotFound),
        (ApiCreate KDeployment (''dowser'', ''query-a''), None),
        (ApiGet KService (''dowser'', ''query-a''), Some NotFound),
        (ApiCreate KService (''dowser'', ''query-a''), None),
        (ApiGet KRoute (''dowser'', ''query-a''), Some NotFound),
        (ApiCreate KRoute (''dowser'', ''query-a''), None)],
     netLog = [HttpGet jobInfoURL, TarLookup jobURL (GCSPrefix defaultOperator)]\<rparr>)"
  by (simp add: run_defs referencedBy_def)

lemma sharing_run_B:
  "reconcileMetricsCluster defaultOperator sampleExternals (''dowser'', ''b'') sharingAfterA =
   (Inr (),
    sharingAfterA
    \<lparr>deployments := [referencedBy [''a''], thanosQueryDeploymentManifest defaultOperator clusterA,
                     thanosQueryDeploymentManifest defaultOperator clusterB],
     services := [thanosStoreServiceManifest defaultOperator clusterA,
                 thanosQueryServiceManifest defaultOperator clusterA,
                 thanosStoreServiceManifest defaultOperator clusterB,
                 thanosQueryServiceManifest defaultOperator clusterB],
     routes := [thanosQueryRouteManifest defaultOperator clusterA,
                thanosQueryRouteManifest defaultOperator clusterB],
     apiLog := apiLog sharingAfterA @
       [(ApiGet KMetricsCluster (''dowser'', ''b''), None),
        (ApiGet KDeployment workloadKey, None),
        (ApiGet KService (''dowser'', ''store-b''), Some NotFound),
        (ApiCreate KService (''dowser'', ''store-b''), None),
        (ApiGet KDeployment (''dowser'', ''query-b''), Some NotFound),
        (ApiCreate KDeployment (''dowser'', ''query-b''), None),
        (ApiGet KService (''dowser'', ''query-b''), Some NotFound),
        (ApiCreate KService (''dowser'', ''query-b''), None),
        (ApiGet KRoute (''dowser'', ''query-b''), Some NotFound),
        (ApiCreate KRoute (''dowser'', ''query-b''), None)],
     netLog := netLog sharingAfterA @ [HttpGet jobInfoURL]\<rparr>)"
  unfolding sharingAfterA_def sharing_run_A
  by (simp add: run_defs)

lemma query_deployment_template [simp]:
  "templateLabels (thanosQueryDeploymentManifest op c) = [''app'' \<mapsto> ''thanos-query'', ''cluster'' \<mapsto> Name c]"
  by (simp add: thanosQueryDeploymentManifest_def templateLabels_def Let_def)

lemma sharing_run_labels:
  "fst (reconcileMetricsCluster defaultOperator sampleExternals (''dowser'', ''a'')
          (worldOf [clusterA, clusterB] [])) = Inr () \<and>
   referencesOf sharingAfterA =
     [(workloadKey, Some ''true'', None), ((''dowser'', ''query-a''), None, None)] \<and>
   fst (reconcileMetricsCluster defaultOperator sampleExternals (''dowser'', ''b'') sharingAfterA)
     = Inr () \<and>
   referencesOf sharingAfterB =
     [(workloadKey, Some ''true'', None), ((''dowser'', ''query-a''), None, None),
      ((''dowser'', ''query-b''), None, None)] \<and>
   writesSince sharingAfterA sharingAfterB =
     [ApiCreate KService (''dowser'', ''store-b''), ApiCreate KDeployment (''dowser'', ''query-b''),
      ApiCreate KService (''dowser'', ''query-b''), ApiCreate KRoute (''dowser'', ''query-b'')]"
  unfolding sharingAfterB_def sharing_run_B
  unfolding sharingAfterA_def sharing_run_A
  by (simp add: referencesOf_def writesSince_def callsSince_def isWrite_def workloadKey_def)


lemma erasure_run_labels:
  "fst (reconcileMetricsCluster defaultOperator sampleExternals (''dowser'', ''b'') erasureBefore)
     = Inr () \<and>
   referencesOf erasureBefore = [(workloadKey, Some ''true'', None)] \<and>
   referencesOf erasureAfterB =
     [(workloadKey, None, Some ''true''), ((''dowser'', ''query-b''), None, None)] \<and>
   writesSince erasureBefore erasureAfterB =
     [ApiUpdate KDeployment workloadKey,
      ApiCreate KService (''dowser'', ''store-b''), ApiCreate KDeployment (''dowser'', ''query-b''),
      ApiCreate KService (''dowser'', ''query-b''), ApiCreate KRoute (''dowser'', ''query-b'')]"
  unfolding erasureAfterB_def
  unfolding erasureBefore_def
  by (simp add: run_defs fun_upd_idem_iff referencesOf_def writesSince_def callsSince_def isWrite_def)

lemma idempotence_run_1:
  "reconcileMetricsCluster defaultOperator sampleExternals (''dowser'', ''a'') idempotenceBefore =
   (Inr (),
    \<lparr>clusters = [clusterA],
     deployments = [revised (referencedBy [''a'']),
                    thanosQueryDeploymentManifest defaultOperator clusterA],
     services = [thanosStoreServiceManifest defaultOperator clusterA,
                 thanosQueryServiceManifest defaultOperator clusterA],
     routes = [thanosQueryRouteManifest defaultOperator clusterA],
     prometheusURLs = [jobURL \<mapsto> jobTarURL],
     apiLog =
       [(ApiGet KMetricsCluster (''dowser'', ''a''), None),
        (ApiGet KDeployment workloadKey, None),
        (ApiUpdate KDeployment workloadKey, None),
        (ApiGet KService (''dowser'', ''store-a''), Some NotFound),
        (ApiCreate KService (''dowser'', ''store-a''), None),
        (ApiGet KDeployment (''dowser'', ''query-a''), Some NotFound),
        (ApiCreate KDeployment (''dowser'', ''query-a''), None),
        (ApiGet KService (''dowser'', ''query-a''), Some NotFound),
        (ApiCreate KService (''dowser'', ''query-a''), None),
        (ApiGet KRoute (''dowser'', ''query-a''), Some NotFound),
        (ApiCreate KRoute (''dowser'', ''query-a''), None)],
     netLog = [HttpGet jobInfoURL, TarLookup jobURL (GCSPrefix defaultOperator)]\<rparr>)"
  unfolding idempotenceBefore_def
  by (simp add: run_defs fun_upd_idem_iff referencedBy_def)

lemma pristine_second_pass_quiet:
  "writesSince sharingAfterA
     (snd (reconcileMetricsCluster defaultOperator sampleExternals (''dowser'', ''a'') sharingAfterA))
   = []"
  unfolding sharingAfterA_def sharing_run_A
  by (simp add: run_defs writesSince_def callsSince_def isWrite_def)


subsection \<open>A failed create is the last call\<close>


lemma ends_simps [simp]:
  "endsAtFailedCreate r []"
  "endsAtFailedCreate r [(ApiGet k n, e)]"
  "endsAtFailedCreate r [(ApiGet k n, e), (ApiCreate k' n', None)]"
  "endsAtFailedCreate r [(ApiGet k n, e), (ApiUpdate k' n', e2)]"
  "endsAtFailedCreate (Inl (Error msg e')) [(ApiGet k n, e), (ApiCreate k' n', Some e')]"
  by (auto simp: endsAtFailedCreate_def failedCreate_def)








lemma ends_Cons [simp]:
  "\<not> failedCreate x \<Longrightarrow> endsAtFailedCreate r (x # xs) = endsAtFailedCreate r xs"
  by (cases "xs = []") (auto simp: endsAtFailedCreate_def)

lemma ends_single [simp]:
  "endsAtFailedCreate r [(ApiCreate k n, Some e)] = (\<exists>msg. r = Inl (Error msg e))"
  by (auto simp: endsAtFailedCreate_def failedCreate_def)

lemma failedCreate_simps [simp]:
  "\<not> failedCreate (ApiGet k n, r)" "\<not> failedCreate (ApiList k ns, r)"
  "\<not> failedCreate (ApiUpdate k n, r)" "\<not> failedCreate (ApiDelete k n, r)"
  "\<not> failedCreate (ApiCreate k n, None)"
  by (simp_all add: failedCreate_def)










section \<open>The claims\<close>

subsection \<open>Metadata resolver\<close>

text \<open>
  C8. When the cache already maps the job URL, \<open>findPrometheusTarURL\<close> returns the cached
  value and leaves the world as it was, its \<open>netLog\<close> included: no lookup is made. On a
  miss with a successful lookup it returns the archive URL and the cache maps the job URL
  to it. On a miss with a failed lookup it returns the error and the cache is unchanged.
\<close>

theorem findPrometheusTarURL_cache:
  "(prometheusURLs w url = Some cached \<longrightarrow>
      findPrometheusTarURL ext url gcsPrefix w = (Inr cached, w)) \<and>
   (prometheusURLs w url = None \<and> getTarURLFromProw ext url gcsPrefix = Inr tarURL \<longrightarrow>
      fst (findPrometheusTarURL ext url gcsPrefix w) = Inr tarURL \<and>
      prometheusURLs (snd (findPrometheusTarURL ext url gcsPrefix w))
        = (prometheusURLs w)(url \<mapsto> tarURL)) \<and>
   (prometheusURLs w url = None \<and> getTarURLFromProw ext url gcsPrefix = Inl err \<longrightarrow>
      fst (findPrometheusTarURL ext url gcsPrefix w) = Inl err \<and>
      prometheusURLs (snd (findPrometheusTarURL ext url gcsPrefix w)) = prometheusURLs w)"
  by (simp add: findPrometheusTarURL_def)

theorem findPrometheusTarURL_cache_witness:
  "findPrometheusTarURL sampleExternals jobURL [] ((worldOf [] [])\<lparr>prometheusURLs := [jobURL \<mapsto> ''cached'']\<rparr>)
     = (Inr ''cached'', (worldOf [] [])\<lparr>prometheusURLs := [jobURL \<mapsto> ''cached'']\<rparr>) \<and>
   fst (findPrometheusTarURL sampleExternals jobURL [] (worldOf [] [])) = Inr jobTarURL \<and>
   prometheusURLs (snd (findPrometheusTarURL sampleExternals jobURL [] (worldOf [] [])))
     = [jobURL \<mapsto> jobTarURL] \<and>
   fst (findPrometheusTarURL sampleExternals ''gone'' [] (worldOf [] [])) = Inl ''no prometheus.tar'' \<and>
   prometheusURLs (snd (findPrometheusTarURL sampleExternals ''gone'' [] (worldOf [] []))) = Map.empty"
  using findPrometheusTarURL_cache
          [of "(worldOf [] [])\<lparr>prometheusURLs := [jobURL \<mapsto> ''cached'']\<rparr>" jobURL "''cached''"
              sampleExternals "[]"]
        findPrometheusTarURL_cache [of "worldOf [] []" jobURL _ sampleExternals "[]" jobTarURL]
        findPrometheusTarURL_cache [of "worldOf [] []" "''gone''" _ sampleExternals "[]" _ "''no prometheus.tar''"]
  by (simp add: worldOf_def sampleExternals_def jobURL_def)

subsection \<open>Identity scheme\<close>

text \<open>
  C9, as the spec states it: each of the four per-cluster objects is named by a prefix of
  its kind followed by the cluster's name, the four prefixes being distinct. There are no
  four such prefixes: the Aggregation Workload and the Aggregation Service of a cluster
  have the same name.
\<close>

theorem per_cluster_prefixes_not_distinct:
  "\<not> (\<exists>ps pd pv pr. distinct [ps, pd, pv, pr] \<and>
        (\<forall>op cluster.
           snd (thanosStoreServiceName op cluster) = ps @ Name cluster \<and>
           snd (thanosQueryDeploymentName op cluster) = pd @ Name cluster \<and>
           snd (thanosQueryServiceName op cluster) = pv @ Name cluster \<and>
           snd (thanosQueryRouteName op cluster) = pr @ Name cluster))"
proof
  assume "\<exists>ps pd pv pr. distinct [ps, pd, pv, pr] \<and>
        (\<forall>op cluster.
           snd (thanosStoreServiceName op cluster) = ps @ Name cluster \<and>
           snd (thanosQueryDeploymentName op cluster) = pd @ Name cluster \<and>
           snd (thanosQueryServiceName op cluster) = pv @ Name cluster \<and>
           snd (thanosQueryRouteName op cluster) = pr @ Name cluster)"
  then obtain ps pd pv pr where d: "distinct [ps, pd, pv, pr]"
    and n: "\<And>op cluster. snd (thanosQueryDeploymentName op cluster) = pd @ Name cluster"
           "\<And>op cluster. snd (thanosQueryServiceName op cluster) = pv @ Name cluster"
    by blast
  have "pd @ ''a'' = ''query-a''" "pv @ ''a'' = ''query-a''"
    using n(1) [of defaultOperator clusterA] n(2) [of defaultOperator clusterA] by simp_all
  then have "pd = pv" by (metis append_same_eq)
  with d show False by simp
qed

text \<open>
  C9, amended: each of the four per-cluster objects is named, in the operating namespace,
  by a fixed prefix followed by the cluster's name; the prefix is \<open>store-\<close> for the Store
  Service and \<open>query-\<close> for the Aggregation Workload, the Aggregation Service and the
  External Route alike (three objects of three different kinds), so the two Services of a
  cluster have different names.
\<close>

theorem per_cluster_names:
  "thanosStoreServiceName op cluster = (OperatorNamespace op, ''store-'' @ Name cluster) \<and>
   thanosQueryDeploymentName op cluster = (OperatorNamespace op, ''query-'' @ Name cluster) \<and>
   thanosQueryServiceName op cluster = (OperatorNamespace op, ''query-'' @ Name cluster) \<and>
   thanosQueryRouteName op cluster = (OperatorNamespace op, ''query-'' @ Name cluster) \<and>
   thanosStoreServiceName op cluster \<noteq> thanosQueryServiceName op cluster"
  by (simp add: thanosStoreServiceName_def thanosQueryDeploymentName_def
      thanosQueryServiceName_def thanosQueryRouteName_def)

subsection \<open>Deployments\<close>

text \<open>
  C3. Let the Storage Workload \<open>d\<close> (a Deployment labelled \<open>app=prometheus\<close>) be the
  object of the request. When the API serves the calls, the workload is gone after
  \<open>reconcileDeployment\<close> if and only if no Declared Cluster of the operating namespace
  has its name as a label key on the workload's pod template. And whatever the API does,
  a workload with such a label key is not deleted: the deployments stay as they were.
\<close>

theorem unreferenced_workload_deleted:
  "((\<forall>n c. \<not> failing ext n c) \<and> lookupObj request (deployments w) = Some d \<and>
    Labels d ''app'' = Some ''prometheus'' \<longrightarrow>
      (lookupObj request (deployments (snd (reconcileDeployment op ext request w))) = None
         \<longleftrightarrow> \<not> (\<exists>c\<in>set (clusters w).
                  Namespace c = OperatorNamespace op \<and> templateLabels d (Name c) \<noteq> None))) \<and>
   (lookupObj request (deployments w) = Some d \<and>
    (\<exists>c\<in>set (clusters w). Namespace c = OperatorNamespace op \<and> templateLabels d (Name c) \<noteq> None) \<longrightarrow>
      deployments (snd (reconcileDeployment op ext request w)) = deployments w)"
proof (intro conjI impI)
  assume a: "(\<forall>n c. \<not> failing ext n c) \<and> lookupObj request (deployments w) = Some d \<and>
    Labels d ''app'' = Some ''prometheus''"
  then have k: "objKey d = request" by (auto dest: lookupObj_Some_key)
  show "lookupObj request (deployments (snd (reconcileDeployment op ext request w))) = None
         \<longleftrightarrow> \<not> (\<exists>c\<in>set (clusters w).
                  Namespace c = OperatorNamespace op \<and> templateLabels d (Name c) \<noteq> None)"
    using a k
    by (simp add: reconcileDeployment_def reconcilePrometheusDeployment_def getDeployment_def
        listMetricsClusters_def deleteDeployment_def fails_def isReferenced_iff lookupObj_removed
        Let_def)
next
  assume a: "lookupObj request (deployments w) = Some d \<and>
    (\<exists>c\<in>set (clusters w). Namespace c = OperatorNamespace op \<and> templateLabels d (Name c) \<noteq> None)"
  then show "deployments (snd (reconcileDeployment op ext request w)) = deployments w"
    by (simp add: reconcileDeployment_def reconcilePrometheusDeployment_def getDeployment_def
        listMetricsClusters_def fails_def isReferenced_iff Let_def)
qed

theorem unreferenced_workload_deleted_witness:
  "lookupObj workloadKey (deployments (snd (reconcileDeployment defaultOperator sampleExternals
      workloadKey (worldOf [clusterB] [referencedBy [''a'']])))) = None \<and>
   lookupObj workloadKey (deployments (snd (reconcileDeployment defaultOperator sampleExternals
      workloadKey (worldOf [clusterA, clusterB] [referencedBy [''a'']])))) \<noteq> None \<and>
   deployments (snd (reconcileDeployment defaultOperator sampleExternals
      workloadKey (worldOf [clusterA, clusterB] [referencedBy [''a'']]))) = [referencedBy [''a'']]"
  using unreferenced_workload_deleted [where ext = sampleExternals and request = workloadKey
          and w = "worldOf [clusterB] [referencedBy [''a'']]" and d = "referencedBy [''a'']"
          and op = defaultOperator]
        unreferenced_workload_deleted [where ext = sampleExternals and request = workloadKey
          and w = "worldOf [clusterA, clusterB] [referencedBy [''a'']]" and d = "referencedBy [''a'']"
          and op = defaultOperator]
  by (simp add: lookupObj_def workloadKey_def)

text \<open>
  C10. When the Deployment of the request does not carry the label \<open>app=prometheus\<close>,
  \<open>reconcileDeployment\<close> makes one call, the Get, and no write; the deployments stay as
  they were; and it returns success (unless the Get itself fails, which is returned as
  the error of the fetch). The Aggregation Workload of a cluster is such a Deployment: its
  manifest carries \<open>app=thanos-query\<close>.
\<close>

theorem other_deployments_left_alone:
  "(lookupObj request (deployments w) = Some d \<and> Labels d ''app'' \<noteq> Some ''prometheus'' \<longrightarrow>
      writesSince w (snd (reconcileDeployment op ext request w)) = [] \<and>
      deployments (snd (reconcileDeployment op ext request w)) = deployments w \<and>
      (if fails ext w (ApiGet KDeployment request)
       then reconcileDeployment op ext request w =
              (Inl (Error ''couldn't fetch deployment'' OtherError),
               logCall (ApiGet KDeployment request) (Some OtherError) w)
       else reconcileDeployment op ext request w =
              (Inr (), logCall (ApiGet KDeployment request) None w))) \<and>
   Labels (thanosQueryDeploymentManifest op cluster) ''app'' \<noteq> Some ''prometheus'' \<and>
   objKey (thanosQueryDeploymentManifest op cluster) = thanosQueryDeploymentName op cluster"
  by (simp add: reconcileDeployment_def getDeployment_def Let_def thanosQueryDeploymentManifest_def
      objKey_def)

theorem other_deployments_left_alone_witness:
  "reconcileDeployment defaultOperator sampleExternals (''dowser'', ''query-a'')
     (worldOf [clusterA] [thanosQueryDeploymentManifest defaultOperator clusterA])
   = (Inr (), logCall (ApiGet KDeployment (''dowser'', ''query-a'')) None
        (worldOf [clusterA] [thanosQueryDeploymentManifest defaultOperator clusterA])) \<and>
   writesSince (worldOf [clusterA] [thanosQueryDeploymentManifest defaultOperator clusterA])
     (snd (reconcileDeployment defaultOperator sampleExternals (''dowser'', ''query-a'')
        (worldOf [clusterA] [thanosQueryDeploymentManifest defaultOperator clusterA]))) = []"
  using other_deployments_left_alone [where request = "(''dowser'', ''query-a'')"
          and w = "worldOf [clusterA] [thanosQueryDeploymentManifest defaultOperator clusterA]"
          and d = "thanosQueryDeploymentManifest defaultOperator clusterA"
          and op = defaultOperator and ext = sampleExternals and cluster = clusterA]
  by (simp add: lookupObj_def fails_def)

subsection \<open>MetricsClusters\<close>






text \<open>
  C1, on the code: the clusters \<open>a\<close> and \<open>b\<close> list the same job URL. After \<open>a\<close> is
  reconciled, its Storage Workload carries the label \<open>a\<close>. The reconciliation of \<open>b\<close>
  then finds the workload and makes no update: the workload carries \<open>a\<close> and not \<open>b\<close>.
  And where the reconciliation of \<open>b\<close> does update the workload (the stored annotations
  differ from the manifest's), the workload it writes carries \<open>b\<close> and no longer \<open>a\<close>.
\<close>

theorem referencing_labels_not_merged:
  "referencesOf sharingAfterA =
     [(workloadKey, Some ''true'', None), ((''dowser'', ''query-a''), None, None)] \<and>
   referencesOf sharingAfterB =
     [(workloadKey, Some ''true'', None), ((''dowser'', ''query-a''), None, None),
      ((''dowser'', ''query-b''), None, None)] \<and>
   ApiUpdate KDeployment workloadKey \<notin> set (writesSince sharingAfterA sharingAfterB) \<and>
   referencesOf erasureBefore = [(workloadKey, Some ''true'', None)] \<and>
   referencesOf erasureAfterB =
     [(workloadKey, None, Some ''true''), ((''dowser'', ''query-b''), None, None)] \<and>
   ApiUpdate KDeployment workloadKey \<in> set (writesSince erasureBefore erasureAfterB)"
  using sharing_run_labels erasure_run_labels by simp

text \<open>
  C2, on the code: cluster \<open>a\<close> no longer exists and the Storage Workload carries the
  labels \<open>a\<close> and \<open>b\<close>. The reconciliation of the key of \<open>a\<close> gets the cluster (not
  found), lists the deployments and returns: no update is made and the workload still
  carries the label \<open>a\<close>. The loop looks for the name of the cluster object that the
  failed Get left at its zero value, the empty name.
\<close>

theorem deletion_keeps_reference:
  "reconcileMetricsCluster defaultOperator sampleExternals (''dowser'', ''a'') deletionBefore =
     (Inr (), deletionBefore
        \<lparr>apiLog := [(ApiGet KMetricsCluster (''dowser'', ''a''), Some NotFound),
                    (ApiList KDeployment ''dowser'', None)]\<rparr>) \<and>
   referencesOf deletionBefore = [(workloadKey, Some ''true'', Some ''true'')]"
  unfolding deletionBefore_def
  by (simp add: run_defs referencesOf_def zeroMetricsCluster_def zeroObjectMeta_def
       ObjectMeta.defs MetricsCluster.defs)


text \<open>
  C4, on the code: the Storage Workload of cluster \<open>a\<close> carries the revision annotation.
  The first reconciliation of \<open>a\<close> completes; the second, with nothing changed, updates
  the workload again, to the same object. (Without the annotation the second pass makes
  no write: \<open>pristine_second_pass_quiet\<close>.)
\<close>

theorem second_pass_writes:
  "fst (reconcileMetricsCluster defaultOperator sampleExternals (''dowser'', ''a'') idempotenceBefore)
     = Inr () \<and>
   fst (reconcileMetricsCluster defaultOperator sampleExternals (''dowser'', ''a'') idempotenceFirst)
     = Inr () \<and>
   writesSince idempotenceFirst idempotenceSecond = [ApiUpdate KDeployment workloadKey] \<and>
   deployments idempotenceSecond = deployments idempotenceFirst"
  unfolding idempotenceSecond_def
  unfolding idempotenceFirst_def idempotence_run_1
  by (simp add: run_defs fun_upd_idem_iff referencedBy_def writesSince_def callsSince_def isWrite_def)


text \<open>
  C7, on the code: when the metadata document does not decode, or decodes without a
  completion timestamp, and the archive URL resolves, the reconciliation panics in
  \<open>prometheusDeploymentManifest\<close>.
\<close>

theorem decode_failure_panics:
  "fst (reconcileMetricsCluster defaultOperator undecodedExternals (''dowser'', ''a'')
          (worldOf [clusterA] []))
     = Inl (Panic ''invalid memory address or nil pointer dereference'') \<and>
   fst (reconcileMetricsCluster defaultOperator runningJobExternals (''dowser'', ''a'')
          (worldOf [clusterA] []))
     = Inl (Panic ''invalid memory address or nil pointer dereference'')"
  by (simp add: run_defs undecodedExternals_def runningJobExternals_def sampleExternals_def
       prometheusDeploymentManifest_def prometheusDeploymentName_def zeroProwJob_def
       sampleProwJob_def zeroDeployment_def)

end
